theory Spec2Isabelle
  imports Main
begin

section \<open>Product model (models/product.model.js)\<close>

text \<open>
  An entry of the \<open>images\<close> array of the product schema. Mongoose casts \<open>isPrimary\<close>
  to a Boolean and \<open>order\<close> to a Number; \<open>alt\<close> is optional.
\<close>

record image =
  url :: string
  alt :: "string option"
  isPrimary :: bool
  order :: int

text \<open>
  The fields of a product that the save hook and the instance methods read or write,
  with the identifying \<open>sku\<close>. The stock quantities are Numbers of the schema, taken as
  integers (\<open>int\<close>): JavaScript adds integers exactly below \<open>2 ^ 53\<close>.
\<close>

record product =
  sku :: string
  stock :: int
  lowStockThreshold :: int
  images :: "image list"

text \<open>
  \<open>productSchema.pre("save")\<close>: when more than one image is flagged primary, the
  \<open>forEach\<close> sets \<open>img.isPrimary = (index === 0)\<close> on every image.
\<close>

definition primaryImages :: "image list \<Rightarrow> image list" where
  "primaryImages imgs = filter isPrimary imgs"

definition set_primary_by_index :: "image list \<Rightarrow> image list" where
  "set_primary_by_index imgs =
     map (\<lambda>(index, img). img\<lparr>isPrimary := (index = 0)\<rparr>) (zip [0..<length imgs] imgs)"

definition product_pre_save :: "product \<Rightarrow> product" where
  "product_pre_save p =
     (if length (images p) > 0 then
        (if length (primaryImages (images p)) > 1
         then p\<lparr>images := set_primary_by_index (images p)\<rparr>
         else p)
      else p)"



section \<open>Task model (models/task.model.js)\<close>

type_synonym object_id = nat

text \<open>A \<open>Date\<close>, as milliseconds since the epoch.\<close>

type_synonym date = nat

datatype task_status = Pending | InProgress | Completed | Cancelled

text \<open>
  The enum of the \<open>status\<close> path is the datatype; \<open>completedAt\<close> is \<open>null\<close> or a
  \<open>Date\<close> (an object, hence truthy in \<open>!this.completedAt\<close>); \<open>progress\<close> is a Number,
  taken as an integer percentage.
\<close>

record task =
  title :: string
  description :: string
  status :: task_status
  assignedTo :: object_id
  createdBy :: object_id
  dueDate :: date
  completedAt :: "date option"
  progress :: int

text \<open>
  \<open>taskSchema.pre("save")\<close>; \<open>now\<close> is the value of \<open>new Date()\<close> at the time of the
  save.
\<close>

definition task_pre_save :: "date \<Rightarrow> task \<Rightarrow> task" where
  "task_pre_save now t =
     (if status t = Completed \<and> completedAt t = None then t\<lparr>completedAt := Some now\<rparr>
      else if status t \<noteq> Completed then t\<lparr>completedAt := None\<rparr>
      else t)"

text \<open>
  \<open>updateProgress(progress)\<close>: clamp into [0, 100], derive the status, then
  \<open>this.save()\<close>, which runs the pre-save hook. The clamped value passes the schema's
  \<open>min\<close>/\<open>max\<close> validators of \<open>progress\<close>, the only path the method modifies besides
  \<open>status\<close>.
\<close>

definition updateProgress :: "date \<Rightarrow> int \<Rightarrow> task \<Rightarrow> task" where
  "updateProgress now p t =
     (let t1 = t\<lparr>progress := max 0 (min 100 p)\<rparr>;
          t2 = (if progress t1 = 100 then t1\<lparr>status := Completed\<rparr>
                else if progress t1 > 0 then t1\<lparr>status := InProgress\<rparr>
                else t1)
      in task_pre_save now t2)"

section \<open>User model (models/user.model.js): the document\<close>

text \<open>
  \<open>password\<close> is \<open>None\<close> on a document whose query did not select it (the path has
  \<open>select: false\<close>) and after \<open>getPublicProfile\<close> deleted it. \<open>role\<close> is the stored
  string. The optional \<open>avatar\<close>, \<open>phone\<close> and \<open>preferences\<close> paths are not read or
  written by the modelled routes.
\<close>

record user =
  user_id :: object_id
  firstName :: string
  lastName :: string
  email :: string
  password :: "string option"
  role :: string
  isActive :: bool
  lastLogin :: "date option"

definition getPublicProfile :: "user \<Rightarrow> user" where
  "getPublicProfile u = u\<lparr>password := None\<rparr>"

section \<open>Responses and thrown errors\<close>

text \<open>
  What a handler passes to \<open>res.status(..).json(..)\<close>: the HTTP status and the keys of
  the JSON envelope (\<open>None\<close> for a key that is not sent).
\<close>

datatype res_data = AuthData user string | UserData user | TaskData task

record response =
  res_status :: nat
  res_success :: bool
  res_message :: "string option"
  res_errors :: "string list option"
  res_data :: "res_data option"
  res_stack :: "string option"

definition json_fail :: "nat \<Rightarrow> string \<Rightarrow> response" where
  "json_fail code msg =
     \<lparr>res_status = code, res_success = False, res_message = Some msg,
      res_errors = None, res_data = None, res_stack = None\<rparr>"

definition json_ok :: "nat \<Rightarrow> string option \<Rightarrow> res_data option \<Rightarrow> response" where
  "json_ok code msg d =
     \<lparr>res_status = code, res_success = True, res_message = msg,
      res_errors = None, res_data = d, res_stack = None\<rparr>"

text \<open>
  A thrown JavaScript error, with the properties that \<open>errorHandler\<close> and the
  \<open>catch\<close> of \<open>authenticateToken\<close> read. A missing \<open>name\<close> or \<open>message\<close> is the
  empty string (both are falsy and equal to no tested name); \<open>keyValue\<close> and \<open>errors\<close>
  are objects, given as their entries in insertion order, or missing.
\<close>

datatype err_code = NumCode int | StrCode string

record js_error =
  err_name :: string
  err_message :: string
  err_code :: "err_code option"
  err_keyValue :: "(string \<times> string) list option"
  err_errors :: "(string \<times> string) list option"
  err_statusCode :: "nat option"
  err_stack :: string

text \<open>\<open>Array.prototype.join\<close> on strings.\<close>

fun join_with :: "string \<Rightarrow> string list \<Rightarrow> string" where
  "join_with sep [] = []"
| "join_with sep [x] = x"
| "join_with sep (x # y # ys) = x @ sep @ join_with sep (y # ys)"

text \<open>
  The local variable \<open>error\<close> of \<open>errorHandler\<close>: only its \<open>message\<close> and
  \<open>statusCode\<close> are read at the end.
\<close>

record norm_error =
  n_message :: string
  n_statusCode :: "nat option"

text \<open>
  The first three tests of \<open>errorHandler\<close>. \<open>Object.keys(err.keyValue)\<close> and
  \<open>Object.values(err.errors)\<close> throw a TypeError on a missing object: the result is
  \<open>None\<close> then, and the handler sends nothing.
\<close>

definition cast_step :: "js_error \<Rightarrow> norm_error \<Rightarrow> norm_error" where
  "cast_step err error =
     (if err_name err = ''CastError''
      then \<lparr>n_message = ''Resource not found'', n_statusCode = Some 404\<rparr> else error)"

definition duplicate_step :: "js_error \<Rightarrow> norm_error \<Rightarrow> norm_error option" where
  "duplicate_step err error =
     (if err_code err = Some (NumCode 11000) then
        (case err_keyValue err of
           None \<Rightarrow> None
         | Some kv \<Rightarrow>
             Some \<lparr>n_message =
                      (case map fst kv of [] \<Rightarrow> ''undefined'' | field # _ \<Rightarrow> field)
                        @ '' already exists'',
                   n_statusCode = Some 400\<rparr>)
      else Some error)"

definition validation_step :: "js_error \<Rightarrow> norm_error \<Rightarrow> norm_error option" where
  "validation_step err error =
     (if err_name err = ''ValidationError'' then
        (case err_errors err of
           None \<Rightarrow> None
         | Some es \<Rightarrow>
             Some \<lparr>n_message = join_with '', '' (map snd es), n_statusCode = Some 400\<rparr>)
      else Some error)"

text \<open>The four remaining tests: the two token errors and the two multer codes.\<close>

definition token_multer_steps :: "js_error \<Rightarrow> norm_error \<Rightarrow> norm_error" where
  "token_multer_steps err error =
     (let e1 = (if err_name err = ''JsonWebTokenError''
                then \<lparr>n_message = ''Invalid token'', n_statusCode = Some 401\<rparr> else error);
          e2 = (if err_name err = ''TokenExpiredError''
                then \<lparr>n_message = ''Token expired'', n_statusCode = Some 401\<rparr> else e1);
          e3 = (if err_code err = Some (StrCode ''LIMIT_FILE_SIZE'')
                then \<lparr>n_message = ''File too large'', n_statusCode = Some 400\<rparr> else e2);
          e4 = (if err_code err = Some (StrCode ''LIMIT_UNEXPECTED_FILE'')
                then \<lparr>n_message = ''Unexpected file field'', n_statusCode = Some 400\<rparr> else e3)
      in e4)"

text \<open>\<open>a || b\<close> on an optional status code: \<open>undefined\<close> and \<open>0\<close> are falsy.\<close>

definition or_code :: "nat option \<Rightarrow> nat \<Rightarrow> nat" where
  "or_code a b = (case a of None \<Rightarrow> b | Some c \<Rightarrow> if c = 0 then b else c)"

text \<open>
  \<open>errorHandler(err, req, res, next)\<close>; \<open>development\<close> is
  \<open>process.env.NODE_ENV === "development"\<close>. The call of \<open>console.error\<close> has no
  effect on the response. The envelope sent is \<open>{ success: false, message }\<close>, with
  \<open>stack\<close> spread in under development.
\<close>

definition error_envelope :: "bool \<Rightarrow> js_error \<Rightarrow> nat \<Rightarrow> string \<Rightarrow> response" where
  "error_envelope development err statusCode message =
     \<lparr>res_status = statusCode, res_success = False, res_message = Some message,
      res_errors = None, res_data = None,
      res_stack = (if development then Some (err_stack err) else None)\<rparr>"

definition errorHandler :: "bool \<Rightarrow> js_error \<Rightarrow> response option" where
  "errorHandler development err =
     (let error0 = \<lparr>n_message = err_message err, n_statusCode = err_statusCode err\<rparr>;
          error1 = cast_step err error0
      in case duplicate_step err error1 of
           None \<Rightarrow> None
         | Some error2 \<Rightarrow>
             (case validation_step err error2 of
                None \<Rightarrow> None
              | Some error3 \<Rightarrow>
                  (let error = token_multer_steps err error3;
                       statusCode = or_code (n_statusCode error) (or_code (err_statusCode err) 500);
                       message = (if n_message error \<noteq> [] then n_message error
                                  else ''Server Error'')
                   in Some (error_envelope development err statusCode message))))"

section \<open>Strings\<close>

text \<open>\<open>String.prototype.toLowerCase\<close>, \<open>trim\<close> and \<open>split\<close>, on ASCII text.\<close>

definition lower_char :: "char \<Rightarrow> char" where
  "lower_char c =
     (case map_of (zip ''ABCDEFGHIJKLMNOPQRSTUVWXYZ'' ''abcdefghijklmnopqrstuvwxyz'') c of
        None \<Rightarrow> c
      | Some d \<Rightarrow> d)"

definition toLowerCase :: "string \<Rightarrow> string" where
  "toLowerCase s = map lower_char s"

definition is_space :: "char \<Rightarrow> bool" where
  "is_space c = (c \<in> set [CHR '' '', CHR 0x09, CHR 0x0A, CHR 0x0B, CHR 0x0C, CHR 0x0D])"


fun split_on :: "char \<Rightarrow> string \<Rightarrow> string list" where
  "split_on c [] = [[]]"
| "split_on c (x # xs) =
     (if x = c then [] # split_on c xs
      else (case split_on c xs of
              [] \<Rightarrow> [[x]]
            | w # ws \<Rightarrow> (x # w) # ws))"

section \<open>External libraries and configuration\<close>

text \<open>The payload of a token: \<open>{ userId }\<close>, with \<open>type\<close> on a reset token.\<close>

record payload =
  p_userId :: object_id
  p_type :: "string option"

text \<open>
  The libraries the code calls and the environment it reads are parameters of the model:
  \<^item> \<open>bcrypt_hash data rounds salt\<close> is \<open>bcrypt.hash(data, rounds)\<close> when the library
    draws \<open>salt\<close>; \<open>bcrypt_compare candidate hash\<close> is \<open>bcrypt.compare\<close>;
  \<^item> \<open>jwt_sign payload expiresIn now\<close> and \<open>jwt_verify token now\<close> are
    \<open>jwt.sign\<close> and \<open>jwt.verify\<close> under \<open>process.env.JWT_SECRET\<close>; a failed
    verification is the thrown error;
  \<^item> \<open>isEmail\<close> and \<open>normalizeEmail\<close> are the validator and sanitizer of
    express-validator; \<open>email_regex\<close> is the \<open>match\<close> expression of the schema's
    \<open>email\<close> path;
  \<^item> \<open>JWT_EXPIRES_IN\<close> and \<open>development\<close> are read from \<open>process.env\<close>.
\<close>

record libs =
  bcrypt_hash :: "string \<Rightarrow> nat \<Rightarrow> string \<Rightarrow> string"
  bcrypt_compare :: "string \<Rightarrow> string \<Rightarrow> bool"
  jwt_sign :: "payload \<Rightarrow> string \<Rightarrow> date \<Rightarrow> string"
  jwt_verify :: "string \<Rightarrow> date \<Rightarrow> js_error + payload"
  isEmail :: "string \<Rightarrow> bool"
  normalizeEmail :: "string \<Rightarrow> string"
  email_regex :: "string \<Rightarrow> bool"
  JWT_EXPIRES_IN :: "string option"
  development :: bool

section \<open>Persistence\<close>

text \<open>
  The two collections the modelled routes touch: the users in insertion order, and the
  tasks by identifier. Identifiers are well-formed ObjectIds.
\<close>

record db =
  users :: "user list"
  tasks :: "object_id \<rightharpoonup> task"

definition plain_error :: "string \<Rightarrow> js_error" where
  "plain_error msg =
     \<lparr>err_name = ''Error'', err_message = msg, err_code = None, err_keyValue = None,
      err_errors = None, err_statusCode = None, err_stack = []\<rparr>"

text \<open>
  Mongoose's \<open>ValidationError\<close> for the failed paths, each with its message, and the
  server's duplicate-key error of a unique index.
\<close>

definition validation_error :: "string \<Rightarrow> (string \<times> string) list \<Rightarrow> js_error" where
  "validation_error prefix es =
     \<lparr>err_name = ''ValidationError'',
      err_message = prefix @ '': ''
                      @ join_with '', '' (map (\<lambda>(path, msg). path @ '': '' @ msg) es),
      err_code = None, err_keyValue = None, err_errors = Some es,
      err_statusCode = None, err_stack = []\<rparr>"

definition duplicate_key_error :: "string \<Rightarrow> string \<Rightarrow> js_error" where
  "duplicate_key_error path v =
     \<lparr>err_name = ''MongoServerError'',
      err_message = ''E11000 duplicate key error'',
      err_code = Some (NumCode 11000), err_keyValue = Some [(path, v)],
      err_errors = None, err_statusCode = None, err_stack = []\<rparr>"

text \<open>\<open>User.findByEmail\<close>, \<open>User.findById\<close>; \<open>findOne\<close> yields the first match.\<close>

definition findByEmail :: "db \<Rightarrow> string \<Rightarrow> user option" where
  "findByEmail d e = find (\<lambda>u. email u = toLowerCase e) (users d)"

definition findById :: "db \<Rightarrow> object_id \<Rightarrow> user option" where
  "findById d i = find (\<lambda>u. user_id u = i) (users d)"

text \<open>
  The validators of the user schema on the paths the routes set, in schema order, as
  (path, message) pairs.
\<close>

definition name_errors :: "string \<Rightarrow> string \<Rightarrow> string \<Rightarrow> (string \<times> string) list" where
  "name_errors path label v =
     (if v = [] then [(path, label @ '' is required'')]
      else if length v > 50 then [(path, label @ '' cannot exceed 50 characters'')]
      else [])"

definition email_errors :: "libs \<Rightarrow> string \<Rightarrow> (string \<times> string) list" where
  "email_errors l v =
     (if v = [] then [(''email'', ''Email is required'')]
      else if \<not> email_regex l v then [(''email'', ''Please enter a valid email'')]
      else [])"

definition password_errors :: "string option \<Rightarrow> (string \<times> string) list" where
  "password_errors pw =
     (case pw of
        None \<Rightarrow> [(''password'', ''Password is required'')]
      | Some p \<Rightarrow>
          if p = [] then [(''password'', ''Password is required'')]
          else if length p < 6
          then [(''password'', ''Password must be at least 6 characters long'')]
          else [])"

definition role_errors :: "string \<Rightarrow> (string \<times> string) list" where
  "role_errors r =
     (if r \<in> set [''user'', ''admin'', ''manager''] then []
      else [(''role'', ''`'' @ r @ ''` is not a valid enum value for path `role`.'')])"

definition user_validate :: "libs \<Rightarrow> user \<Rightarrow> (string \<times> string) list" where
  "user_validate l u =
     name_errors ''firstName'' ''First name'' (firstName u)
     @ name_errors ''lastName'' ''Last name'' (lastName u)
     @ email_errors l (email u)
     @ password_errors (password u)
     @ role_errors (role u)"

text \<open>
  \<open>userSchema.pre("save")\<close>; \<open>modified\<close> is \<open>this.isModified("password")\<close>. The
  rejection of \<open>bcrypt.hash\<close> on a missing password is passed to \<open>next\<close>.
\<close>

definition user_pre_save :: "libs \<Rightarrow> string \<Rightarrow> bool \<Rightarrow> user \<Rightarrow> js_error + user" where
  "user_pre_save l salt modified u =
     (if \<not> modified then Inr u
      else (case password u of
              None \<Rightarrow> Inl (plain_error ''Illegal arguments: undefined, number'')
            | Some p \<Rightarrow> Inr (u\<lparr>password := Some (bcrypt_hash l p 12 salt)\<rparr>)))"

text \<open>
  \<open>user.save()\<close>: Mongoose validates first (every path of a new document, the modified
  paths of a loaded one), then runs the pre-save hook, then inserts the new document
  under the unique index on \<open>email\<close>, or writes the modified paths of a loaded one. The
  routes modelled here modify only \<open>lastLogin\<close> and \<open>password\<close> on a loaded document.
\<close>

definition user_save ::
  "libs \<Rightarrow> string \<Rightarrow> bool \<Rightarrow> bool \<Rightarrow> user \<Rightarrow> db \<Rightarrow> js_error + (user \<times> db)" where
  "user_save l salt isNew passwordModified u d =
     (case (if isNew then user_validate l u
            else if passwordModified then password_errors (password u) else []) of
        e # es \<Rightarrow> Inl (validation_error ''User validation failed'' (e # es))
      | [] \<Rightarrow>
          (case user_pre_save l salt (isNew \<or> passwordModified) u of
             Inl err \<Rightarrow> Inl err
           | Inr u' \<Rightarrow>
               if isNew then
                 (if email u' \<in> set (map email (users d))
                  then Inl (duplicate_key_error ''email'' (email u'))
                  else Inr (u', d\<lparr>users := users d @ [u']\<rparr>))
               else
                 Inr (u', d\<lparr>users :=
                        map (\<lambda>v. if user_id v = user_id u'
                                  then v\<lparr>lastLogin := lastLogin u',
                                         password := (if passwordModified then password u'
                                                      else password v)\<rparr>
                                  else v) (users d)\<rparr>)))"

text \<open>\<open>comparePassword\<close>; \<open>bcrypt.compare\<close> rejects when the hash is missing.\<close>

definition comparePassword :: "libs \<Rightarrow> user \<Rightarrow> string \<Rightarrow> js_error + bool" where
  "comparePassword l u candidatePassword =
     (case password u of
        None \<Rightarrow> Inl (plain_error ''Illegal arguments: string, undefined'')
      | Some h \<Rightarrow> Inr (bcrypt_compare l candidatePassword h))"

section \<open>Middleware (auth.middleware.js, error.middleware.js)\<close>

text \<open>
  A middleware either sends a response, and the chain stops, or calls \<open>next()\<close>, with
  what it attached to the request.
\<close>

datatype 'a mw = Respond response | Next 'a

text \<open>
  \<open>authHeader && authHeader.split(" ")[1]\<close>, with the falsy results (no header, no
  second piece, an empty second piece) as \<open>None\<close>.
\<close>

definition bearer_token :: "string option \<Rightarrow> string option" where
  "bearer_token authHeader =
     (case authHeader of
        None \<Rightarrow> None
      | Some h \<Rightarrow>
          if h = [] then None
          else (case split_on CHR '' '' h of
                  _ # t # _ \<Rightarrow> if t = [] then None else Some t
                | _ \<Rightarrow> None))"

text \<open>
  \<open>authenticateToken\<close>. The query deselects the password, so the attached user has
  none. The \<open>catch\<close> tests the name of whatever \<open>jwt.verify\<close> threw.
\<close>

definition authenticateToken :: "libs \<Rightarrow> db \<Rightarrow> date \<Rightarrow> string option \<Rightarrow> user mw" where
  "authenticateToken l d now authHeader =
     (case bearer_token authHeader of
        None \<Rightarrow> Respond (json_fail 401 ''Access token is required'')
      | Some token \<Rightarrow>
          (case jwt_verify l token now of
             Inl error \<Rightarrow>
               if err_name error = ''JsonWebTokenError''
               then Respond (json_fail 401 ''Invalid token'')
               else if err_name error = ''TokenExpiredError''
               then Respond (json_fail 401 ''Token has expired'')
               else Respond (json_fail 500 ''Authentication error'')
           | Inr decoded \<Rightarrow>
               (case findById d (p_userId decoded) of
                  None \<Rightarrow> Respond (json_fail 401 ''User not found'')
                | Some u \<Rightarrow>
                    if \<not> isActive u
                    then Respond (json_fail 401 ''User account is deactivated'')
                    else Next (u\<lparr>password := None\<rparr>))))"

text \<open>\<open>requireRole(roles)\<close> on \<open>req.user\<close>, and its instance \<open>requireAdmin\<close>.\<close>

definition requireRole :: "string list \<Rightarrow> user option \<Rightarrow> unit mw" where
  "requireRole roles req_user =
     (case req_user of
        None \<Rightarrow> Respond (json_fail 401 ''Authentication required'')
      | Some u \<Rightarrow>
          if role u \<notin> set roles
          then Respond (json_fail 403 ''Insufficient permissions'')
          else Next ())"

definition requireAdmin :: "user option \<Rightarrow> unit mw" where
  "requireAdmin = requireRole [''admin'']"

text \<open>
  A route handler wrapped in \<open>asyncHandler\<close> sends a response or throws; the thrown
  error goes to \<open>next\<close>. It returns the database it leaves behind.
\<close>

type_synonym handled = "(js_error + response) \<times> db"

text \<open>A role guard in front of a handler, as in \<open>router.delete("/:id", requireAdmin, h)\<close>.\<close>

definition guarded :: "string list \<Rightarrow> user option \<Rightarrow> (db \<Rightarrow> handled) \<Rightarrow> db \<Rightarrow> handled" where
  "guarded roles req_user h d =
     (case requireRole roles req_user of
        Respond r \<Rightarrow> (Inr r, d)
      | Next _ \<Rightarrow> h d)"

section \<open>Routes\<close>

subsection \<open>auth.routes.js\<close>

definition generateToken :: "libs \<Rightarrow> object_id \<Rightarrow> date \<Rightarrow> string" where
  "generateToken l userId now =
     jwt_sign l \<lparr>p_userId = userId, p_type = None\<rparr>
       (case JWT_EXPIRES_IN l of None \<Rightarrow> ''7d'' | Some s \<Rightarrow> if s = [] then ''7d'' else s)
       now"

definition validation_failed :: "string list \<Rightarrow> response" where
  "validation_failed errors =
     \<lparr>res_status = 400, res_success = False, res_message = Some ''Validation failed'',
      res_errors = Some errors, res_data = None, res_stack = None\<rparr>"


record login_body =
  lb_email :: string
  lb_password :: string




text \<open>
  The handler of \<open>POST /api/auth/login\<close>. The lookup selects the password
  (\<open>select("+password")\<close>).
\<close>

definition login_errors :: "libs \<Rightarrow> login_body \<Rightarrow> string list" where
  "login_errors l body =
     (if isEmail l (lb_email body) then [] else [''Please provide a valid email''])
     @ (if lb_password body \<noteq> [] then [] else [''Password is required''])"

definition login_handler :: "libs \<Rightarrow> date \<Rightarrow> db \<Rightarrow> login_body \<Rightarrow> handled" where
  "login_handler l now d body =
     (let errors = login_errors l body in
      if errors \<noteq> [] then (Inr (validation_failed errors), d)
      else
        (case findByEmail d (normalizeEmail l (lb_email body)) of
           None \<Rightarrow> (Inr (json_fail 401 ''Invalid email or password''), d)
         | Some u \<Rightarrow>
             if \<not> isActive u then (Inr (json_fail 401 ''Account is deactivated''), d)
             else
               (case comparePassword l u (lb_password body) of
                  Inl err \<Rightarrow> (Inl err, d)
                | Inr isPasswordValid \<Rightarrow>
                    if \<not> isPasswordValid
                    then (Inr (json_fail 401 ''Invalid email or password''), d)
                    else
                      (let token = generateToken l (user_id u) now in
                       case user_save l [] False False (u\<lparr>lastLogin := Some now\<rparr>) d of
                         Inl err \<Rightarrow> (Inl err, d)
                       | Inr (u1, d1) \<Rightarrow>
                           (Inr (json_ok 200 (Some ''Login successful'')
                                   (Some (AuthData (getPublicProfile u1) token))), d1)))))"

subsection \<open>task.routes.js: PUT /api/tasks/:id\<close>

text \<open>
  The paths of the request body that concern the task's status and progress; each may
  be absent. Other paths of the body are written in the same way and touch neither.
\<close>

record task_update =
  tu_status :: "task_status option"
  tu_progress :: "int option"

text \<open>The update validators (\<open>runValidators: true\<close>) of the paths in the update.\<close>

definition task_update_errors :: "task_update \<Rightarrow> (string \<times> string) list" where
  "task_update_errors body =
     (case tu_progress body of
        None \<Rightarrow> []
      | Some p \<Rightarrow>
          if p < 0 then [(''progress'', ''Progress cannot be negative'')]
          else if p > 100 then [(''progress'', ''Progress cannot exceed 100%'')]
          else [])"

definition apply_task_update :: "task_update \<Rightarrow> task \<Rightarrow> task" where
  "apply_task_update body t =
     t\<lparr>status := (case tu_status body of None \<Rightarrow> status t | Some s \<Rightarrow> s),
       progress := (case tu_progress body of None \<Rightarrow> progress t | Some p \<Rightarrow> p)\<rparr>"

text \<open>
  \<open>Task.findByIdAndUpdate(req.params.id, req.body, { new: true, runValidators: true })\<close>
  is a query: it writes the paths of the body and runs no save hook. The response
  carries the updated document.
\<close>

definition update_task_handler :: "db \<Rightarrow> object_id \<Rightarrow> task_update \<Rightarrow> handled" where
  "update_task_handler d i body =
     (case task_update_errors body of
        e # es \<Rightarrow> (Inl (validation_error ''Validation failed'' (e # es)), d)
      | [] \<Rightarrow>
          (case tasks d i of
             None \<Rightarrow> (Inr (json_fail 404 ''Task not found''), d)
           | Some t \<Rightarrow>
               (Inr (json_ok 200 None (Some (TaskData (apply_task_update body t)))),
                d\<lparr>tasks := (tasks d)(i \<mapsto> apply_task_update body t)\<rparr>)))"

subsection \<open>user.routes.js: DELETE /api/users/:id\<close>

text \<open>The handler behind \<open>requireAdmin\<close>; \<open>findByIdAndDelete\<close> removes the document found.\<close>

definition delete_user_handler :: "object_id \<Rightarrow> db \<Rightarrow> handled" where
  "delete_user_handler i d =
     (case findById d i of
        None \<Rightarrow> (Inr (json_fail 404 ''User not found''), d)
      | Some u \<Rightarrow>
          (Inr (json_ok 200 (Some ''User deleted successfully'') None),
           d\<lparr>users := remove1 u (users d)\<rparr>))"

definition delete_user_route :: "user option \<Rightarrow> object_id \<Rightarrow> db \<Rightarrow> handled" where
  "delete_user_route req_user i d = guarded [''admin''] req_user (delete_user_handler i) d"

subsection \<open>server.js: mounting\<close>

text \<open>
  The routers mounted under \<open>/api\<close>. All but the auth router sit behind
  \<open>authenticateToken\<close>; what a router does with the request is a parameter. A thrown
  error reaches \<open>errorHandler\<close>, which sends the response, unless it throws itself.
\<close>

datatype mount = ApiAuth | ApiUsers | ApiTasks | ApiProducts | ApiSettings

definition finish :: "libs \<Rightarrow> handled \<Rightarrow> response option \<times> db" where
  "finish l out =
     (case fst out of
        Inr r \<Rightarrow> (Some r, snd out)
      | Inl err \<Rightarrow> (errorHandler (development l) err, snd out))"

definition app_use ::
  "libs \<Rightarrow> (mount \<Rightarrow> user option \<Rightarrow> db \<Rightarrow> handled) \<Rightarrow> mount \<Rightarrow> string option \<Rightarrow> date \<Rightarrow> db
     \<Rightarrow> response option \<times> db" where
  "app_use l routers m authHeader now d =
     (if m = ApiAuth then finish l (routers ApiAuth None d)
      else (case authenticateToken l d now authHeader of
              Respond r \<Rightarrow> (Some r, d)
            | Next u \<Rightarrow> finish l (routers m (Some u) d)))"

section \<open>Stand-ins for the libraries\<close>

text \<open>
  Concrete inputs are evaluated with these simple stand-ins for bcrypt, jsonwebtoken and
  express-validator. The general theorems quantify over the libraries instead.
\<close>

definition token_error :: "string \<Rightarrow> string \<Rightarrow> js_error" where
  "token_error nm msg = (plain_error msg)\<lparr>err_name := nm\<rparr>"

definition stub_libs :: libs where
  "stub_libs =
     \<lparr>bcrypt_hash = (\<lambda>data rounds salt. CHR ''#'' # data),
      bcrypt_compare = (\<lambda>candidate h. h = CHR ''#'' # candidate),
      jwt_sign = (\<lambda>p expiresIn now. ''jwt-'' @ replicate (p_userId p) CHR ''i''),
      jwt_verify = (\<lambda>token now.
         if take 4 token = ''jwt-''
         then Inr \<lparr>p_userId = length token - 4, p_type = None\<rparr>
         else if token = ''expired''
         then Inl (token_error ''TokenExpiredError'' ''jwt expired'')
         else Inl (token_error ''JsonWebTokenError'' ''jwt malformed'')),
      isEmail = (\<lambda>e. CHR ''@'' \<in> set e \<and> filter is_space e = []),
      normalizeEmail = toLowerCase,
      email_regex = (\<lambda>e. CHR ''@'' \<in> set e),
      JWT_EXPIRES_IN = None,
      development = False\<rparr>"

section \<open>Example data\<close>

definition example_task :: task where
  "example_task =
     \<lparr>title = ''Write report'', description = ''Quarterly figures'', status = Pending,
      assignedTo = 1, createdBy = 2, dueDate = 500, completedAt = None, progress = 0\<rparr>"

definition example_user :: user where
  "example_user =
     \<lparr>user_id = 3, firstName = ''Ann'', lastName = ''Lee'', email = ''ann@example.com'',
      password = Some ''#secret1'', role = ''user'', isActive = True, lastLogin = None\<rparr>"

definition example_db :: db where
  "example_db =
     \<lparr>users = [example_user,
               example_user\<lparr>user_id := 4, email := ''bob@example.com'', isActive := False\<rparr>],
      tasks = [7 \<mapsto> example_task]\<rparr>"

text \<open>A router that completes task 7 whatever the request.\<close>

definition example_router :: "mount \<Rightarrow> user option \<Rightarrow> db \<Rightarrow> handled" where
  "example_router m req_user d =
     update_task_handler d 7 \<lparr>tu_status = Some Completed, tu_progress = Some 100\<rparr>"

section \<open>Properties of the product model\<close>

lemma zip_upt_shift:
  "map (\<lambda>(index, img). f (index = (0::nat)) img) (zip [Suc k..<Suc k + length xs] xs) =
   map (f False) xs"
proof (induction xs arbitrary: k)
  case Nil
  then show ?case by simp
next
  case (Cons x xs)
  have "[Suc k..<Suc k + length (x # xs)] = Suc k # [Suc (Suc k)..<Suc (Suc k) + length xs]"
    by (simp add: upt_rec)
  then show ?case using Cons.IH [of "Suc k"] by simp
qed

lemma set_primary_by_index_Cons:
  "set_primary_by_index (x # xs) =
   x\<lparr>isPrimary := True\<rparr> # map (\<lambda>img. img\<lparr>isPrimary := False\<rparr>) xs"
proof -
  have "[0..<length (x # xs)] = 0 # [Suc 0..<Suc 0 + length xs]"
    by (simp add: upt_rec)
  then show ?thesis
    unfolding set_primary_by_index_def
    using zip_upt_shift [of "\<lambda>b img. img\<lparr>isPrimary := b\<rparr>" 0 xs] by simp
qed

lemma primaryImages_demoted:
  "primaryImages (map (\<lambda>img. img\<lparr>isPrimary := False\<rparr>) xs) = []"
  by (induction xs) (simp_all add: primaryImages_def)

lemma length_primaryImages_set_primary:
  "imgs \<noteq> [] \<Longrightarrow> length (primaryImages (set_primary_by_index imgs)) = 1"
proof (cases imgs)
  case Nil
  assume "imgs \<noteq> []"
  with Nil show ?thesis by simp
next
  case (Cons x xs)
  have "primaryImages (set_primary_by_index (x # xs)) = [x\<lparr>isPrimary := True\<rparr>]"
    using primaryImages_demoted [of xs]
    by (simp add: set_primary_by_index_Cons primaryImages_def)
  with Cons show ?thesis by simp
qed

text \<open>
  C3. A product whose images list holds N images flagged primary has, after the pre-save
  normalization, exactly one image flagged primary, and none when N was zero.
\<close>

theorem product_pre_save_one_primary:
  "length (primaryImages (images (product_pre_save p))) =
     (if length (primaryImages (images p)) = 0 then 0 else 1)"
proof (cases "length (primaryImages (images p)) > 1")
  case True
  then have ne: "images p \<noteq> []" by (auto simp: primaryImages_def)
  have "length (primaryImages (set_primary_by_index (images p))) = 1"
    using ne by (rule length_primaryImages_set_primary)
  moreover have "product_pre_save p = p\<lparr>images := set_primary_by_index (images p)\<rparr>"
    using True ne by (simp add: product_pre_save_def)
  ultimately show ?thesis using True
    by (cases "primaryImages (images p)") simp_all
next
  case False
  then have "product_pre_save p = p" by (simp add: product_pre_save_def)
  with False show ?thesis
    by (cases "primaryImages (images p)") simp_all
qed





section \<open>Properties of the task model\<close>

text \<open>
  C5. On every task save the hook assigns the completion timestamp (the time of the save)
  when the status is completed and no timestamp is present, keeps a present one, and
  sets it to null whenever the status is anything other than completed; afterwards the
  timestamp is present exactly when the status is completed.
\<close>

theorem task_pre_save_completedAt:
  "(status t = Completed \<and> completedAt t = None \<longrightarrow>
      completedAt (task_pre_save now t) = Some now) \<and>
   (status t = Completed \<and> completedAt t \<noteq> None \<longrightarrow>
      completedAt (task_pre_save now t) = completedAt t) \<and>
   (status t \<noteq> Completed \<longrightarrow> completedAt (task_pre_save now t) = None) \<and>
   (completedAt (task_pre_save now t) \<noteq> None \<longleftrightarrow> status t = Completed) \<and>
   status (task_pre_save now t) = status t"
  by (simp add: task_pre_save_def)

theorem task_pre_save_completedAt_witness:
  "status (example_task\<lparr>status := Completed\<rparr>) = Completed \<and>
   completedAt (example_task\<lparr>status := Completed\<rparr>) = None \<and>
   completedAt (task_pre_save 1000 (example_task\<lparr>status := Completed\<rparr>)) = Some 1000 \<and>
   status (example_task\<lparr>completedAt := Some 3\<rparr>) \<noteq> Completed \<and>
   completedAt (task_pre_save 1000 (example_task\<lparr>completedAt := Some 3\<rparr>)) = None"
  using task_pre_save_completedAt [of "example_task\<lparr>status := Completed\<rparr>" 1000]
    task_pre_save_completedAt [of "example_task\<lparr>completedAt := Some 3\<rparr>" 1000]
  by (simp add: example_task_def)

text \<open>
  C2, as stated, fails on the task-update route: a body that sets only the progress to
  100 leaves a pending task pending.
\<close>

theorem update_route_progress_counterexample:
  "tasks (snd (update_task_handler \<lparr>users = [], tasks = [7 \<mapsto> example_task]\<rparr> 7
                 \<lparr>tu_status = None, tu_progress = Some 100\<rparr>)) 7 =
     Some \<lparr>title = ''Write report'', description = ''Quarterly figures'', status = Pending,
           assignedTo = 1, createdBy = 2, dueDate = 500, completedAt = None,
           progress = 100\<rparr>"
  by (simp add: update_task_handler_def task_update_errors_def apply_task_update_def
      example_task_def)

text \<open>
  C2, amended. After updateProgress the task's progress is the argument clamped into
  [0, 100], a progress of 100 comes with status completed, and a progress strictly
  between 0 and 100 comes with a status other than pending. The task-update route stores
  the status and progress of the request body as they are (the stored value where the
  body has none) and does not derive one from the other.
\<close>

theorem updateProgress_status_invariant:
  "(progress (updateProgress now p t) = 100 \<longrightarrow> status (updateProgress now p t) = Completed) \<and>
   (0 < progress (updateProgress now p t) \<and> progress (updateProgress now p t) < 100 \<longrightarrow>
      status (updateProgress now p t) \<noteq> Pending) \<and>
   progress (updateProgress now p t) = max 0 (min 100 p) \<and>
   (tasks d i = Some t \<and> task_update_errors body = [] \<longrightarrow>
      tasks (snd (update_task_handler d i body)) i = Some (apply_task_update body t))"
  by (auto simp add: updateProgress_def task_pre_save_def Let_def update_task_handler_def)

theorem updateProgress_status_invariant_witness:
  "progress (updateProgress 1000 250 example_task) = 100 \<and>
   status (updateProgress 1000 250 example_task) = Completed \<and>
   0 < progress (updateProgress 1000 40 example_task) \<and>
   progress (updateProgress 1000 40 example_task) < 100 \<and>
   status (updateProgress 1000 40 example_task) \<noteq> Pending \<and>
   tasks \<lparr>users = [], tasks = [7 \<mapsto> example_task]\<rparr> 7 = Some example_task \<and>
   task_update_errors \<lparr>tu_status = Some Completed, tu_progress = Some 100\<rparr> = [] \<and>
   tasks (snd (update_task_handler \<lparr>users = [], tasks = [7 \<mapsto> example_task]\<rparr> 7
                 \<lparr>tu_status = Some Completed, tu_progress = Some 100\<rparr>)) 7 =
     Some (example_task\<lparr>status := Completed, progress := 100\<rparr>)"
  using updateProgress_status_invariant [of 1000 250 example_task
          "\<lparr>users = [], tasks = [7 \<mapsto> example_task]\<rparr>" 7
          "\<lparr>tu_status = Some Completed, tu_progress = Some 100\<rparr>"]
    updateProgress_status_invariant [of 1000 40 example_task
          "\<lparr>users = [], tasks = [7 \<mapsto> example_task]\<rparr>" 7
          "\<lparr>tu_status = Some Completed, tu_progress = Some 100\<rparr>"]
  by (simp add: task_update_errors_def apply_task_update_def)

section \<open>Properties of the error normalizer\<close>

lemma errorHandler_envelope:
  "errorHandler dev err = Some r \<Longrightarrow>
     res_success r = False \<and> res_message r \<noteq> None \<and> res_errors r = None \<and>
     res_data r = None \<and> res_stack r = (if dev then Some (err_stack err) else None)"
  by (auto simp add: errorHandler_def error_envelope_def Let_def split: option.splits)

lemma errorHandler_throws:
  "errorHandler dev err = None \<longleftrightarrow>
     (err_code err = Some (NumCode 11000) \<and> err_keyValue err = None) \<or>
     (err_name err = ''ValidationError'' \<and> err_errors err = None)"
  by (auto simp add: errorHandler_def duplicate_step_def validation_step_def Let_def
      split: option.splits)

text \<open>
  C6, as stated, fails in its last case: an exception of none of the named categories
  that carries its own status code is answered with that code, not with 500. The body
  parser's error for malformed JSON (a SyntaxError with \<open>statusCode\<close> 400) is one.
\<close>

theorem errorHandler_other_counterexample:
  "errorHandler False
     \<lparr>err_name = ''SyntaxError'', err_message = ''Unexpected end of JSON input'',
      err_code = None, err_keyValue = None, err_errors = None,
      err_statusCode = Some 400, err_stack = ''SyntaxError: Unexpected end of JSON input''\<rparr> =
   Some \<lparr>res_status = 400, res_success = False,
         res_message = Some ''Unexpected end of JSON input'',
         res_errors = None, res_data = None, res_stack = None\<rparr>"
  by (simp add: errorHandler_def cast_step_def duplicate_step_def validation_step_def
      token_multer_steps_def or_code_def error_envelope_def)

text \<open>
  C6, amended. The response of the error normalizer is a function of the exception and
  the development flag alone. For an exception of one category: a CastError yields 404;
  a duplicate key (code 11000) yields 400 with the first key of \<open>keyValue\<close> followed by
  "already exists"; a ValidationError yields 400 with the field messages joined by ", ";
  a JsonWebTokenError or TokenExpiredError yields 401; the two multer codes yield 400;
  any other exception yields the status code it carries when that is present and not
  zero, and 500 otherwise, with its own message or "Server Error". Every response sent
  is \<open>{success: false, message}\<close>, with the stack added under development only. The
  handler sends nothing exactly when a duplicate-key error lacks \<open>keyValue\<close> or a
  ValidationError lacks \<open>errors\<close>.
\<close>

theorem errorHandler_mapping:
  "(err_name err = ''CastError'' \<and> err_code err = None \<longrightarrow>
      errorHandler dev err = Some (error_envelope dev err 404 ''Resource not found'')) \<and>
   (err_code err = Some (NumCode 11000) \<and> err_keyValue err = Some ((field, v) # kv) \<and>
    err_name err \<notin> set [''ValidationError'', ''JsonWebTokenError'', ''TokenExpiredError''] \<longrightarrow>
      errorHandler dev err = Some (error_envelope dev err 400 (field @ '' already exists''))) \<and>
   (err_name err = ''ValidationError'' \<and> err_code err = None \<and> err_errors err = Some es \<and>
    join_with '', '' (map snd es) \<noteq> [] \<longrightarrow>
      errorHandler dev err =
        Some (error_envelope dev err 400 (join_with '', '' (map snd es)))) \<and>
   (err_name err = ''JsonWebTokenError'' \<and> err_code err = None \<longrightarrow>
      errorHandler dev err = Some (error_envelope dev err 401 ''Invalid token'')) \<and>
   (err_name err = ''TokenExpiredError'' \<and> err_code err = None \<longrightarrow>
      errorHandler dev err = Some (error_envelope dev err 401 ''Token expired'')) \<and>
   (err_code err = Some (StrCode ''LIMIT_FILE_SIZE'') \<and>
    err_name err \<noteq> ''ValidationError'' \<longrightarrow>
      errorHandler dev err = Some (error_envelope dev err 400 ''File too large'')) \<and>
   (err_code err = Some (StrCode ''LIMIT_UNEXPECTED_FILE'') \<and>
    err_name err \<noteq> ''ValidationError'' \<longrightarrow>
      errorHandler dev err = Some (error_envelope dev err 400 ''Unexpected file field'')) \<and>
   (err_name err \<notin>
      set [''CastError'', ''ValidationError'', ''JsonWebTokenError'', ''TokenExpiredError''] \<and>
    err_code err \<notin> set [Some (NumCode 11000), Some (StrCode ''LIMIT_FILE_SIZE''),
                         Some (StrCode ''LIMIT_UNEXPECTED_FILE'')] \<longrightarrow>
      errorHandler dev err =
        Some (error_envelope dev err (or_code (err_statusCode err) 500)
               (if err_message err \<noteq> [] then err_message err else ''Server Error''))) \<and>
   (\<forall>r. errorHandler dev err = Some r \<longrightarrow>
      res_success r = False \<and> res_message r \<noteq> None \<and> res_errors r = None \<and>
      res_data r = None \<and> res_stack r = (if dev then Some (err_stack err) else None)) \<and>
   (errorHandler dev err = None \<longleftrightarrow>
      (err_code err = Some (NumCode 11000) \<and> err_keyValue err = None) \<or>
      (err_name err = ''ValidationError'' \<and> err_errors err = None))"
proof -
  have mapping: "?thesis \<longleftrightarrow>
      (\<forall>r. errorHandler dev err = Some r \<longrightarrow>
        res_success r = False \<and> res_message r \<noteq> None \<and> res_errors r = None \<and>
        res_data r = None \<and> res_stack r = (if dev then Some (err_stack err) else None)) \<and>
      (errorHandler dev err = None \<longleftrightarrow>
        (err_code err = Some (NumCode 11000) \<and> err_keyValue err = None) \<or>
        (err_name err = ''ValidationError'' \<and> err_errors err = None))"
    by (simp add: errorHandler_def cast_step_def duplicate_step_def validation_step_def
        token_multer_steps_def or_code_def Let_def split: option.splits)
  show ?thesis
    unfolding mapping using errorHandler_envelope [of dev err] errorHandler_throws [of dev err]
    by blast
qed

theorem errorHandler_mapping_witness:
  "errorHandler False ((plain_error ''Cast to ObjectId failed'')\<lparr>err_name := ''CastError''\<rparr>) =
     Some (json_fail 404 ''Resource not found'') \<and>
   errorHandler False (duplicate_key_error ''email'' ''ann@example.com'') =
     Some (json_fail 400 ''email already exists'') \<and>
   errorHandler False
       (validation_error ''User validation failed''
          [(''email'', ''Please enter a valid email''), (''role'', ''Invalid role'')]) =
     Some (json_fail 400 ''Please enter a valid email, Invalid role'') \<and>
   errorHandler False (plain_error ''boom'') = Some (json_fail 500 ''boom'')"
  using errorHandler_mapping [of "(plain_error ''Cast to ObjectId failed'')\<lparr>err_name := ''CastError''\<rparr>"
          False]
    errorHandler_mapping [of "duplicate_key_error ''email'' ''ann@example.com''" False
          "''email''" "''ann@example.com''" "[]"]
    errorHandler_mapping [of "validation_error ''User validation failed''
          [(''email'', ''Please enter a valid email''), (''role'', ''Invalid role'')]" False
          _ _ _ "[(''email'', ''Please enter a valid email''), (''role'', ''Invalid role'')]"]
    errorHandler_mapping [of "plain_error ''boom''" False]
  by (simp add: plain_error_def duplicate_key_error_def validation_error_def json_fail_def
      error_envelope_def or_code_def)

section \<open>Properties of the middleware\<close>

text \<open>
  C4. On a route mounted behind the auth middleware (users, tasks, products, settings),
  a request without a bearer token, with a token whose verification throws a
  JsonWebTokenError (invalid) or a TokenExpiredError (expired), or with a token whose
  user does not exist or is inactive, is answered 401 by the middleware; the router is
  not run and the database is unchanged.
\<close>

theorem protected_mount_rejects:
  assumes "m \<noteq> ApiAuth"
  shows
  "(bearer_token authHeader = None \<longrightarrow>
      app_use l routers m authHeader now d =
        (Some (json_fail 401 ''Access token is required''), d)) \<and>
   (bearer_token authHeader = Some token \<and> jwt_verify l token now = Inl e \<and>
    err_name e = ''JsonWebTokenError'' \<longrightarrow>
      app_use l routers m authHeader now d = (Some (json_fail 401 ''Invalid token''), d)) \<and>
   (bearer_token authHeader = Some token \<and> jwt_verify l token now = Inl e \<and>
    err_name e = ''TokenExpiredError'' \<longrightarrow>
      app_use l routers m authHeader now d = (Some (json_fail 401 ''Token has expired''), d)) \<and>
   (bearer_token authHeader = Some token \<and> jwt_verify l token now = Inr decoded \<and>
    findById d (p_userId decoded) = None \<longrightarrow>
      app_use l routers m authHeader now d = (Some (json_fail 401 ''User not found''), d)) \<and>
   (bearer_token authHeader = Some token \<and> jwt_verify l token now = Inr decoded \<and>
    findById d (p_userId decoded) = Some u \<and> \<not> isActive u \<longrightarrow>
      app_use l routers m authHeader now d =
        (Some (json_fail 401 ''User account is deactivated''), d))"
  using assms by (simp add: app_use_def authenticateToken_def)

theorem protected_mount_rejects_witness:
  "ApiTasks \<noteq> ApiAuth \<and>
   bearer_token None = None \<and>
   app_use stub_libs example_router ApiTasks None 0 example_db =
     (Some (json_fail 401 ''Access token is required''), example_db) \<and>
   bearer_token (Some ''Bearer expired'') = Some ''expired'' \<and>
   app_use stub_libs example_router ApiTasks (Some ''Bearer expired'') 0 example_db =
     (Some (json_fail 401 ''Token has expired''), example_db) \<and>
   bearer_token (Some ''Bearer jwt-iiii'') = Some ''jwt-iiii'' \<and>
   app_use stub_libs example_router ApiTasks (Some ''Bearer jwt-iiii'') 0 example_db =
     (Some (json_fail 401 ''User account is deactivated''), example_db)"
proof -
  have m: "ApiTasks \<noteq> ApiAuth" by simp
  have b1: "bearer_token (Some ''Bearer expired'') = Some ''expired''"
    by (simp add: bearer_token_def)
  have v1: "jwt_verify stub_libs ''expired'' 0 =
              Inl (token_error ''TokenExpiredError'' ''jwt expired'')"
    by (simp add: stub_libs_def)
  have b2: "bearer_token (Some ''Bearer jwt-iiii'') = Some ''jwt-iiii''"
    by (simp add: bearer_token_def)
  have v2: "jwt_verify stub_libs ''jwt-iiii'' 0 = Inr \<lparr>p_userId = 4, p_type = None\<rparr>"
    by (simp add: stub_libs_def)
  have f2: "findById example_db 4 =
              Some (example_user\<lparr>user_id := 4, email := ''bob@example.com'', isActive := False\<rparr>)"
    by (simp add: findById_def example_db_def example_user_def)
  show ?thesis
    using protected_mount_rejects [OF m, where authHeader = None and l = stub_libs
          and routers = example_router and now = 0 and d = example_db]
      protected_mount_rejects [OF m, where authHeader = "Some ''Bearer expired''"
          and token = "''expired''" and l = stub_libs and now = 0
          and e = "token_error ''TokenExpiredError'' ''jwt expired''"
          and routers = example_router and d = example_db]
      protected_mount_rejects [OF m, where authHeader = "Some ''Bearer jwt-iiii''"
          and token = "''jwt-iiii''" and l = stub_libs and now = 0
          and routers = example_router and d = example_db
          and decoded = "\<lparr>p_userId = 4, p_type = None\<rparr>"
          and u = "example_user\<lparr>user_id := 4, email := ''bob@example.com'', isActive := False\<rparr>"]
      b1 v1 b2 v2 f2
    by (simp add: bearer_token_def token_error_def plain_error_def)
qed

text \<open>
  C8. For an authenticated request and a list of permitted roles, the role guard calls
  next (the handler runs) exactly when the acting user's role is in the list; otherwise
  it answers 403 and the handler is not run. On the admin-only user-delete route a
  non-admin gets 403 and the database, the target user included, is unchanged.
\<close>

theorem requireRole_guards:
  "(requireRole roles (Some u) = Next () \<longleftrightarrow> role u \<in> set roles) \<and>
   (role u \<in> set roles \<longrightarrow> guarded roles (Some u) h d = h d) \<and>
   (role u \<notin> set roles \<longrightarrow>
      requireRole roles (Some u) = Respond (json_fail 403 ''Insufficient permissions'') \<and>
      guarded roles (Some u) h d = (Inr (json_fail 403 ''Insufficient permissions''), d)) \<and>
   (role u \<noteq> ''admin'' \<longrightarrow>
      delete_user_route (Some u) i d = (Inr (json_fail 403 ''Insufficient permissions''), d) \<and>
      findById (snd (delete_user_route (Some u) i d)) i = findById d i)"
  by (simp add: requireRole_def guarded_def delete_user_route_def)

theorem requireRole_guards_witness:
  "role example_user \<noteq> ''admin'' \<and>
   delete_user_route (Some example_user) 4 example_db =
     (Inr (json_fail 403 ''Insufficient permissions''), example_db) \<and>
   role (example_user\<lparr>role := ''admin''\<rparr>) \<in> set [''admin''] \<and>
   users (snd (delete_user_route (Some (example_user\<lparr>role := ''admin''\<rparr>)) 4 example_db)) =
     [example_user]"
  using requireRole_guards [where roles = "[''admin'']" and u = example_user
          and h = "delete_user_handler 4" and d = example_db and i = 4]
    requireRole_guards [where roles = "[''admin'']" and u = "example_user\<lparr>role := ''admin''\<rparr>"
          and h = "delete_user_handler 4" and d = example_db and i = 4]
  by (simp add: example_user_def example_db_def delete_user_route_def delete_user_handler_def
      findById_def)

section \<open>Properties of the auth routes\<close>

text \<open>
  C1, as stated, fails for the inactive account: its 401 carries the message "Account is
  deactivated", while an unknown email gets "Invalid email or password".
\<close>

theorem login_inactive_counterexample:
  "fst (login_handler stub_libs 0 example_db
          \<lparr>lb_email = ''bob@example.com'', lb_password = ''secret1''\<rparr>) =
     Inr \<lparr>res_status = 401, res_success = False,
          res_message = Some ''Account is deactivated'',
          res_errors = None, res_data = None, res_stack = None\<rparr> \<and>
   fst (login_handler stub_libs 0 example_db
          \<lparr>lb_email = ''zed@example.com'', lb_password = ''secret1''\<rparr>) =
     Inr \<lparr>res_status = 401, res_success = False,
          res_message = Some ''Invalid email or password'',
          res_errors = None, res_data = None, res_stack = None\<rparr>"
  by (simp add: login_handler_def login_errors_def stub_libs_def is_space_def findByEmail_def
      toLowerCase_def lower_char_def example_db_def example_user_def json_fail_def)

text \<open>
  C1, amended. For every login request that passes validation: when the email lookup
  fails or the password does not match, the response is the same 401 with the message
  "Invalid email or password", with nothing to tell the two causes apart; when the
  account is inactive, the response is a 401 of the same shape with the message
  "Account is deactivated". In all three cases the database is unchanged.
\<close>

theorem login_failure_responses:
  assumes "login_errors l body = []"
  shows
  "(findByEmail d (normalizeEmail l (lb_email body)) = None \<longrightarrow>
      login_handler l now d body = (Inr (json_fail 401 ''Invalid email or password''), d)) \<and>
   (findByEmail d (normalizeEmail l (lb_email body)) = Some u \<and> isActive u \<and>
    comparePassword l u (lb_password body) = Inr False \<longrightarrow>
      login_handler l now d body = (Inr (json_fail 401 ''Invalid email or password''), d)) \<and>
   (findByEmail d (normalizeEmail l (lb_email body)) = Some u \<and> \<not> isActive u \<longrightarrow>
      login_handler l now d body = (Inr (json_fail 401 ''Account is deactivated''), d))"
  using assms by (simp add: login_handler_def)

theorem login_failure_responses_witness:
  "login_errors stub_libs \<lparr>lb_email = ''zed@example.com'', lb_password = ''secret1''\<rparr> = [] \<and>
   findByEmail example_db (normalizeEmail stub_libs ''zed@example.com'') = None \<and>
   login_handler stub_libs 0 example_db
       \<lparr>lb_email = ''zed@example.com'', lb_password = ''secret1''\<rparr> =
     (Inr (json_fail 401 ''Invalid email or password''), example_db) \<and>
   login_errors stub_libs \<lparr>lb_email = ''Ann@Example.com'', lb_password = ''wrong''\<rparr> = [] \<and>
   findByEmail example_db (normalizeEmail stub_libs ''Ann@Example.com'') = Some example_user \<and>
   isActive example_user \<and>
   comparePassword stub_libs example_user ''wrong'' = Inr False \<and>
   login_handler stub_libs 0 example_db
       \<lparr>lb_email = ''Ann@Example.com'', lb_password = ''wrong''\<rparr> =
     (Inr (json_fail 401 ''Invalid email or password''), example_db) \<and>
   login_errors stub_libs \<lparr>lb_email = ''bob@example.com'', lb_password = ''secret1''\<rparr> = [] \<and>
   findByEmail example_db (normalizeEmail stub_libs ''bob@example.com'') =
     Some (example_user\<lparr>user_id := 4, email := ''bob@example.com'', isActive := False\<rparr>) \<and>
   login_handler stub_libs 0 example_db
       \<lparr>lb_email = ''bob@example.com'', lb_password = ''secret1''\<rparr> =
     (Inr (json_fail 401 ''Account is deactivated''), example_db)"
proof -
  have e1: "login_errors stub_libs \<lparr>lb_email = ''zed@example.com'', lb_password = ''secret1''\<rparr> = []"
    by (simp add: login_errors_def stub_libs_def is_space_def)
  have f1: "findByEmail example_db (normalizeEmail stub_libs ''zed@example.com'') = None"
    by (simp add: findByEmail_def stub_libs_def toLowerCase_def lower_char_def example_db_def
        example_user_def)
  have e2: "login_errors stub_libs \<lparr>lb_email = ''Ann@Example.com'', lb_password = ''wrong''\<rparr> = []"
    by (simp add: login_errors_def stub_libs_def is_space_def)
  have f2: "findByEmail example_db (normalizeEmail stub_libs ''Ann@Example.com'') =
              Some example_user"
    by (simp add: findByEmail_def stub_libs_def toLowerCase_def lower_char_def example_db_def
        example_user_def)
  have a2: "isActive example_user" by (simp add: example_user_def)
  have c2: "comparePassword stub_libs example_user ''wrong'' = Inr False"
    by (simp add: comparePassword_def stub_libs_def example_user_def)
  have e3: "login_errors stub_libs \<lparr>lb_email = ''bob@example.com'', lb_password = ''secret1''\<rparr> = []"
    by (simp add: login_errors_def stub_libs_def is_space_def)
  have f3: "findByEmail example_db (normalizeEmail stub_libs ''bob@example.com'') =
              Some (example_user\<lparr>user_id := 4, email := ''bob@example.com'', isActive := False\<rparr>)"
    by (simp add: findByEmail_def stub_libs_def toLowerCase_def lower_char_def example_db_def
        example_user_def)
  show ?thesis
    using login_failure_responses [OF e1, where d = example_db and now = 0]
      login_failure_responses [OF e2, where d = example_db and now = 0 and u = example_user]
      login_failure_responses [OF e3, where d = example_db and now = 0
        and u = "example_user\<lparr>user_id := 4, email := ''bob@example.com'', isActive := False\<rparr>"]
      e1 f1 e2 f2 a2 c2 e3 f3
    by simp
qed








end
